theory Spec2Isabelle
  imports Main
begin

section \<open>Python values, sessions and the outside world\<close>

text \<open>
  The program is \<^verbatim>\<open>src/main.py\<close>: ten FastAPI route handlers that read and write the
  visitor's session dictionary, call the SMS verification service through
  \<^verbatim>\<open>requests.post\<close> and the account store through the \<^verbatim>\<open>supabase\<close> client.

  Values held in the session, in form fields and in parsed JSON bodies are Python values.
  A dict literal is kept as the list of its items in the order written; lookup takes the
  first item with the key. JSON numbers that are not integers are left out: no handler
  looks at a number.
\<close>

datatype pyval =
    PNone
  | PBool bool
  | PInt int
  | PStr string
  | PList "pyval list"
  | PDict "(string \<times> pyval) list"

text \<open>Python's truth value of an object, as \<^verbatim>\<open>not x\<close> and \<^verbatim>\<open>if x\<close> use it.\<close>

fun py_truthy :: "pyval \<Rightarrow> bool" where
  "py_truthy PNone = False"
| "py_truthy (PBool b) = b"
| "py_truthy (PInt i) = (i \<noteq> 0)"
| "py_truthy (PStr s) = (s \<noteq> [])"
| "py_truthy (PList xs) = (xs \<noteq> [])"
| "py_truthy (PDict kvs) = (kvs \<noteq> [])"

text \<open>
  What a handler can raise. \<open>HTTPException\<close> carries \<^verbatim>\<open>status_code\<close> and \<^verbatim>\<open>detail\<close>;
  \<open>Exception\<close> carries the text that \<^verbatim>\<open>str(e)\<close> gives and stands for every exception
  raised with a message, by the handlers or inside a library call.
\<close>

datatype exc =
    HTTPException nat string
  | KeyError string
  | TypeError
  | AttributeError
  | Exception string

text \<open>\<^verbatim>\<open>d.get(k)\<close> on a dict: the value, or None when the key is missing.\<close>

definition dict_get :: "(string \<times> pyval) list \<Rightarrow> string \<Rightarrow> pyval" where
  "dict_get kvs k = (case map_of kvs k of None \<Rightarrow> PNone | Some v \<Rightarrow> v)"

text \<open>\<^verbatim>\<open>x.get(k)\<close> on any value: only a dict has the method.\<close>

fun py_get :: "pyval \<Rightarrow> string \<Rightarrow> exc + pyval" where
  "py_get (PDict kvs) k = Inr (dict_get kvs k)"
| "py_get _ k = Inl AttributeError"

text \<open>\<^verbatim>\<open>x[k]\<close> with a string key: a dict raises KeyError on a missing key, every other
  value raises TypeError.\<close>

fun py_getitem :: "pyval \<Rightarrow> string \<Rightarrow> exc + pyval" where
  "py_getitem (PDict kvs) k =
     (case map_of kvs k of None \<Rightarrow> Inl (KeyError k) | Some v \<Rightarrow> Inr v)"
| "py_getitem _ k = Inl TypeError"

text \<open>
  \<^verbatim>\<open>request.session\<close> is a dict from string keys to values. \<^verbatim>\<open>session.get(k)\<close> is
  \<open>session_get\<close>, \<^verbatim>\<open>session[k] = v\<close> is \<open>s(k \<mapsto> v)\<close> and \<^verbatim>\<open>session.pop(k, None)\<close> is
  \<open>s(k := None)\<close>.
\<close>

type_synonym session = "string \<rightharpoonup> pyval"

definition session_get :: "session \<Rightarrow> string \<Rightarrow> pyval" where
  "session_get s k = (case s k of None \<Rightarrow> PNone | Some v \<Rightarrow> v)"

text \<open>The configuration read from the environment at start-up; a variable that is not set
  is None.\<close>

record config =
  TWILIO_ACCOUNT_SID :: "string option"
  TWILIO_AUTH_TOKEN :: "string option"
  TWILIO_VERIFY_SERVICE_SID :: "string option"

text \<open>How an f-string renders an optional string.\<close>

definition fmt :: "string option \<Rightarrow> string" where
  "fmt x = (case x of None \<Rightarrow> ''None'' | Some s \<Rightarrow> s)"

text \<open>
  What the account store hands back, as far as the handlers look at it.
  \<^item> \<^verbatim>\<open>auth.admin.create_user\<close> returns a response or None; the response's \<^verbatim>\<open>user\<close> is a
    user object, of which only \<^verbatim>\<open>id\<close> is read, or None.
  \<^item> the response of an insert may or may not have an \<^verbatim>\<open>error\<close> attribute; of the
    attribute's value the handler uses the truth value and the text it formats to.
  \<^item> the response of a select may or may not have a \<^verbatim>\<open>data\<close> attribute, which is None
    or the list of the rows found.
\<close>

datatype auth_user = User pyval

record user_response =
  user :: "auth_user option"

datatype error_attr = NoErrorAttr | ErrorAttr bool string

record insert_response =
  error :: error_attr

datatype data_attr = NoDataAttr | DataAttr "pyval list option"

record select_response =
  data :: data_attr

text \<open>
  The outside world answers the calls the program makes. A call either raises (\<open>Inl\<close>,
  with the text of the exception) or returns. \<open>requests_post\<close> stands for
  \<^verbatim>\<open>requests.post(url, data=..., auth=...).json()\<close>, the parsed body.
\<close>

record env =
  requests_post :: "string \<Rightarrow> (string \<times> pyval) list \<Rightarrow> string + pyval"
  create_user :: "pyval \<Rightarrow> string + user_response option"
  table_insert :: "string \<Rightarrow> pyval \<Rightarrow> string + insert_response"
  table_select_eq :: "string \<Rightarrow> string \<Rightarrow> pyval \<Rightarrow> string + select_response"

text \<open>Every call that leaves the process is recorded, in the order made.\<close>

datatype call =
    RequestsPost string "(string \<times> pyval) list" "string option \<times> string option"
  | CreateUser pyval
  | TableInsert string pyval
  | TableSelectEq string string pyval

datatype response =
    TemplateResponse string "(string \<times> pyval) list"
  | RedirectResponse string nat

text \<open>
  What one request leaves behind: the response returned or the exception raised, the
  session dict as the handler leaves it, and the calls made.
\<close>

record outcome =
  result :: "exc + response"
  session :: session
  calls :: "call list"

section \<open>Twilio Verify helper functions\<close>

definition send_otp :: "config \<Rightarrow> env \<Rightarrow> pyval \<Rightarrow> (string + pyval) \<times> call" where
  "send_otp cfg e phone_number =
     (let url = ''https://verify.twilio.com/v2/Services/''
                  @ fmt (TWILIO_VERIFY_SERVICE_SID cfg) @ ''/Verifications'';
          data = [(''To'', phone_number), (''Channel'', PStr ''sms'')]
      in (requests_post e url data,
          RequestsPost url data (TWILIO_ACCOUNT_SID cfg, TWILIO_AUTH_TOKEN cfg)))"

definition verify_otp :: "config \<Rightarrow> env \<Rightarrow> pyval \<Rightarrow> pyval \<Rightarrow> (string + pyval) \<times> call" where
  "verify_otp cfg e phone_number code =
     (let url = ''https://verify.twilio.com/v2/Services/''
                  @ fmt (TWILIO_VERIFY_SERVICE_SID cfg) @ ''/VerificationCheck'';
          data = [(''To'', phone_number), (''Code'', code)]
      in (requests_post e url data,
          RequestsPost url data (TWILIO_ACCOUNT_SID cfg, TWILIO_AUTH_TOKEN cfg)))"

section \<open>Routes\<close>

text \<open>
  Each handler takes the session it finds and returns an \<open>outcome\<close>. A \<^verbatim>\<open>raise\<close> is
  the result \<open>Inl\<close>; the session of the outcome then holds what the handler had written
  before it raised. The \<^verbatim>\<open>print\<close> calls write to the log only and are left out.
\<close>

definition home :: "session \<Rightarrow> outcome" where
  "home s =
     (let user = session_get s ''user''
      in \<lparr>result = Inr (TemplateResponse ''home.html'' [(''user'', user)]),
          session = s, calls = []\<rparr>)"

definition get_signup :: "session \<Rightarrow> outcome" where
  "get_signup s =
     \<lparr>result = Inr (TemplateResponse ''signup.html'' []), session = s, calls = []\<rparr>"

definition post_signup :: "config \<Rightarrow> env \<Rightarrow> string \<Rightarrow> string \<Rightarrow> session \<Rightarrow> outcome" where
  "post_signup cfg e name phone s =
     (let s1 = s(''pending_user'' \<mapsto> PDict [(''name'', PStr name), (''phone'', PStr phone)])
      in case send_otp cfg e (PStr phone) of (otp_response, c) \<Rightarrow>
         (case otp_response of
            Inl msg \<Rightarrow> \<lparr>result = Inl (Exception msg), session = s1, calls = [c]\<rparr>
          | Inr r \<Rightarrow>
              (case py_get r ''status'' of
                 Inl x \<Rightarrow> \<lparr>result = Inl x, session = s1, calls = [c]\<rparr>
               | Inr st \<Rightarrow>
                   if st \<notin> set [PStr ''pending'', PStr ''approved'']
                   then \<lparr>result = Inl (HTTPException 500 ''Failed to send OTP''),
                         session = s1, calls = [c]\<rparr>
                   else \<lparr>result = Inr (RedirectResponse ''/verify'' 302),
                         session = s1, calls = [c]\<rparr>)))"

definition get_verify :: "session \<Rightarrow> outcome" where
  "get_verify s =
     (let pending = session_get s ''pending_user''
      in if \<not> py_truthy pending
         then \<lparr>result = Inr (RedirectResponse ''/signup'' 307), session = s, calls = []\<rparr>
         else (case py_getitem pending ''phone'' of
                 Inl x \<Rightarrow> \<lparr>result = Inl x, session = s, calls = []\<rparr>
               | Inr phone \<Rightarrow>
                   \<lparr>result = Inr (TemplateResponse ''verify.html'' [(''phone'', phone)]),
                    session = s, calls = []\<rparr>))"

text \<open>The body of the \<^verbatim>\<open>try\<close> block of \<^verbatim>\<open>post_verify\<close>: it yields \<^verbatim>\<open>user_id\<close>, or the
  text of the exception that the \<^verbatim>\<open>except\<close> clause catches.\<close>

definition post_verify_try :: "env \<Rightarrow> pyval \<Rightarrow> pyval \<Rightarrow> (string + pyval) \<times> call list" where
  "post_verify_try e phone name =
     (let payload = PDict [(''phone'', phone), (''phone_confirm'', PBool True),
                           (''user_metadata'', PDict [(''name'', name)])];
          c1 = CreateUser payload
      in case create_user e payload of
           Inl msg \<Rightarrow> (Inl msg, [c1])
         | Inr None \<Rightarrow> (Inl ''Supabase user creation response was invalid.'', [c1])
         | Inr (Some auth_response) \<Rightarrow>
             (case user auth_response of
                None \<Rightarrow> (Inl ''Supabase user creation response was invalid.'', [c1])
              | Some (User user_id) \<Rightarrow>
                  (let profile_data = PDict [(''id'', user_id), (''name'', name),
                                             (''phone'', phone),
                                             (''created_at'', PStr ''now()'')];
                       c2 = TableInsert ''profiles'' profile_data
                   in case table_insert e ''profiles'' profile_data of
                        Inl msg \<Rightarrow> (Inl msg, [c1, c2])
                      | Inr profile_response \<Rightarrow>
                          (case error profile_response of
                             ErrorAttr True txt \<Rightarrow>
                               (Inl (''Failed to create user profile: '' @ txt), [c1, c2])
                           | _ \<Rightarrow> (Inr user_id, [c1, c2])))))"

definition post_verify :: "config \<Rightarrow> env \<Rightarrow> string \<Rightarrow> session \<Rightarrow> outcome" where
  "post_verify cfg e otp s =
     (let pending = session_get s ''pending_user''
      in if \<not> py_truthy pending
         then \<lparr>result = Inl (HTTPException 400
                               ''No pending user found. Please sign up first.''),
               session = s, calls = []\<rparr>
         else
          (case py_getitem pending ''phone'' of
             Inl x \<Rightarrow> \<lparr>result = Inl x, session = s, calls = []\<rparr>
           | Inr phone \<Rightarrow>
          (case py_getitem pending ''name'' of
             Inl x \<Rightarrow> \<lparr>result = Inl x, session = s, calls = []\<rparr>
           | Inr name \<Rightarrow>
          (case verify_otp cfg e phone (PStr otp) of (verify_result, c) \<Rightarrow>
          (case verify_result of
             Inl msg \<Rightarrow> \<lparr>result = Inl (Exception msg), session = s, calls = [c]\<rparr>
           | Inr r \<Rightarrow>
          (case py_get r ''status'' of
             Inl x \<Rightarrow> \<lparr>result = Inl x, session = s, calls = [c]\<rparr>
           | Inr st \<Rightarrow>
               if st \<noteq> PStr ''approved''
               then \<lparr>result = Inl (HTTPException 400
                                     ''OTP verification failed. Please try again.''),
                     session = s, calls = [c]\<rparr>
               else
                (case post_verify_try e phone name of
                   (Inl msg, cs) \<Rightarrow>
                     \<lparr>result = Inl (HTTPException 500
                                      (''Error creating user in Supabase: '' @ msg)),
                      session = s, calls = c # cs\<rparr>
                 | (Inr user_id, cs) \<Rightarrow>
                     (let user_for_session = PDict [(''id'', user_id), (''name'', name),
                                                    (''phone'', phone)]
                      in \<lparr>result = Inr (RedirectResponse ''/'' 302),
                          session = (s(''user'' \<mapsto> user_for_session))(''pending_user'' := None),
                          calls = c # cs\<rparr>))))))))"

definition signout :: "session \<Rightarrow> outcome" where
  "signout s =
     \<lparr>result = Inr (RedirectResponse ''/'' 302), session = s(''user'' := None), calls = []\<rparr>"

definition get_signin :: "session \<Rightarrow> outcome" where
  "get_signin s =
     \<lparr>result = Inr (TemplateResponse ''signin.html'' []), session = s, calls = []\<rparr>"

text \<open>Everything \<^verbatim>\<open>post_signin\<close> does is inside one \<^verbatim>\<open>try\<close>, whose \<^verbatim>\<open>except Exception\<close>
  also catches the HTTPException raised inside it.\<close>

definition post_signin :: "config \<Rightarrow> env \<Rightarrow> string \<Rightarrow> session \<Rightarrow> outcome" where
  "post_signin cfg e phone s =
     (let s1 = s(''signin_phone'' \<mapsto> PStr phone);
          caught = Inl (HTTPException 500 ''Error during sign-in'')
      in case send_otp cfg e (PStr phone) of (otp_response, c) \<Rightarrow>
         (case otp_response of
            Inl msg \<Rightarrow> \<lparr>result = caught, session = s1, calls = [c]\<rparr>
          | Inr r \<Rightarrow>
              (case py_get r ''status'' of
                 Inl x \<Rightarrow> \<lparr>result = caught, session = s1, calls = [c]\<rparr>
               | Inr st \<Rightarrow>
                   if st \<notin> set [PStr ''pending'', PStr ''approved'']
                   then \<lparr>result = caught, session = s1, calls = [c]\<rparr>
                   else \<lparr>result = Inr (RedirectResponse ''/signin/verify'' 302),
                         session = s1, calls = [c]\<rparr>)))"

definition get_signin_verify :: "session \<Rightarrow> outcome" where
  "get_signin_verify s =
     (let phone = session_get s ''signin_phone''
      in if \<not> py_truthy phone
         then \<lparr>result = Inr (RedirectResponse ''/signin'' 307), session = s, calls = []\<rparr>
         else \<lparr>result = Inr (TemplateResponse ''signin_verify.html'' [(''phone'', phone)]),
               session = s, calls = []\<rparr>)"

text \<open>The body of the \<^verbatim>\<open>try\<close> block of \<^verbatim>\<open>post_signin_verify\<close>, after the select has
  returned: it yields \<^verbatim>\<open>user_for_session\<close> or the exception raised.\<close>

definition post_signin_verify_try :: "select_response \<Rightarrow> exc + pyval" where
  "post_signin_verify_try profile_response =
     (case data profile_response of
        NoDataAttr \<Rightarrow> Inl (HTTPException 404 ''No user found with this phone number'')
      | DataAttr None \<Rightarrow> Inl (HTTPException 404 ''No user found with this phone number'')
      | DataAttr (Some []) \<Rightarrow> Inl (HTTPException 404 ''No user found with this phone number'')
      | DataAttr (Some (user_profile # _)) \<Rightarrow>
          (case py_get user_profile ''id'' of
             Inl x \<Rightarrow> Inl x
           | Inr i \<Rightarrow>
          (case py_get user_profile ''name'' of
             Inl x \<Rightarrow> Inl x
           | Inr n \<Rightarrow>
          (case py_get user_profile ''phone'' of
             Inl x \<Rightarrow> Inl x
           | Inr p \<Rightarrow> Inr (PDict [(''id'', i), (''name'', n), (''phone'', p)])))))"

definition post_signin_verify :: "config \<Rightarrow> env \<Rightarrow> string \<Rightarrow> session \<Rightarrow> outcome" where
  "post_signin_verify cfg e otp s =
     (let phone = session_get s ''signin_phone''
      in if \<not> py_truthy phone
         then \<lparr>result = Inl (HTTPException 400
                               ''No phone number found. Please sign in first.''),
               session = s, calls = []\<rparr>
         else
          (case verify_otp cfg e phone (PStr otp) of (verify_result, c) \<Rightarrow>
          (case verify_result of
             Inl msg \<Rightarrow> \<lparr>result = Inl (Exception msg), session = s, calls = [c]\<rparr>
           | Inr r \<Rightarrow>
          (case py_get r ''status'' of
             Inl x \<Rightarrow> \<lparr>result = Inl x, session = s, calls = [c]\<rparr>
           | Inr st \<Rightarrow>
               if st \<noteq> PStr ''approved''
               then \<lparr>result = Inl (HTTPException 400
                                     ''OTP verification failed. Please try again.''),
                     session = s, calls = [c]\<rparr>
               else
                (let c2 = TableSelectEq ''profiles'' ''phone'' phone;
                     caught = Inl (HTTPException 500 ''Error during sign-in verification'')
                 in case table_select_eq e ''profiles'' ''phone'' phone of
                      Inl msg \<Rightarrow> \<lparr>result = caught, session = s, calls = [c, c2]\<rparr>
                    | Inr profile_response \<Rightarrow>
                        (case post_signin_verify_try profile_response of
                           Inl (HTTPException code detail) \<Rightarrow>
                             \<lparr>result = Inl (HTTPException code detail),
                              session = s, calls = [c, c2]\<rparr>
                         | Inl _ \<Rightarrow> \<lparr>result = caught, session = s, calls = [c, c2]\<rparr>
                         | Inr user_for_session \<Rightarrow>
                             \<lparr>result = Inr (RedirectResponse ''/'' 302),
                              session = (s(''user'' \<mapsto> user_for_session))
                                          (''signin_phone'' := None),
                              calls = [c, c2]\<rparr>))))))"

section \<open>The application\<close>

text \<open>The routing table: one request for each decorated handler, with the form fields
  the handler declares.\<close>

datatype request =
    Get_home
  | Get_signup
  | Post_signup string string
  | Get_verify
  | Post_verify string
  | Get_signout
  | Get_signin
  | Post_signin string
  | Get_signin_verify
  | Post_signin_verify string

fun app :: "config \<Rightarrow> env \<Rightarrow> request \<Rightarrow> session \<Rightarrow> outcome" where
  "app cfg e Get_home s = home s"
| "app cfg e Get_signup s = get_signup s"
| "app cfg e (Post_signup name phone) s = post_signup cfg e name phone s"
| "app cfg e Get_verify s = get_verify s"
| "app cfg e (Post_verify otp) s = post_verify cfg e otp s"
| "app cfg e Get_signout s = signout s"
| "app cfg e Get_signin s = get_signin s"
| "app cfg e (Post_signin phone) s = post_signin cfg e phone s"
| "app cfg e Get_signin_verify s = get_signin_verify s"
| "app cfg e (Post_signin_verify otp) s = post_signin_verify cfg e otp s"

text \<open>
  The session a visitor carries to the next request. The session middleware writes the
  cookie when a response starts, which includes the response made of an HTTPException;
  any other exception leaves through the middleware, and the visitor keeps the cookie
  held before.
\<close>

definition persisted :: "session \<Rightarrow> outcome \<Rightarrow> session" where
  "persisted s out =
     (case result out of
        Inr _ \<Rightarrow> session out
      | Inl (HTTPException _ _) \<Rightarrow> session out
      | Inl _ \<Rightarrow> s)"

text \<open>A visitor's requests in a row, each answered by the outside world of its moment.\<close>

fun run :: "config \<Rightarrow> (env \<times> request) list \<Rightarrow> session \<Rightarrow> session" where
  "run cfg [] s = s"
| "run cfg ((e, r) # rs) s = run cfg rs (persisted s (app cfg e r s))"

section \<open>Example worlds\<close>

definition cfg0 :: config where
  "cfg0 = \<lparr>TWILIO_ACCOUNT_SID = Some ''AC0'', TWILIO_AUTH_TOKEN = Some ''token'',
           TWILIO_VERIFY_SERVICE_SID = Some ''VA0''\<rparr>"

text \<open>A world that gives the same answer to every call of a kind.\<close>

definition answering ::
  "(string + pyval) \<Rightarrow> (string + user_response option) \<Rightarrow> (string + insert_response)
     \<Rightarrow> (string + select_response) \<Rightarrow> env" where
  "answering posted created inserted selected =
     \<lparr>requests_post = (\<lambda>url d. posted), create_user = (\<lambda>p. created),
      table_insert = (\<lambda>t row. inserted), table_select_eq = (\<lambda>t col v. selected)\<rparr>"

definition status_json :: "string \<Rightarrow> string + pyval" where
  "status_json st = Inr (PDict [(''status'', PStr st)])"

definition user_created :: "string \<Rightarrow> string + user_response option" where
  "user_created uid = Inr (Some \<lparr>user = Some (User (PStr uid))\<rparr>)"

definition inserted_ok :: "string + insert_response" where
  "inserted_ok = Inr \<lparr>error = NoErrorAttr\<rparr>"

definition rows_found :: "pyval list \<Rightarrow> string + select_response" where
  "rows_found rows = Inr \<lparr>data = DataAttr (Some rows)\<rparr>"

definition ada_row :: pyval where
  "ada_row = PDict [(''id'', PStr ''u1''), (''name'', PStr ''Ada''),
                    (''phone'', PStr ''+15551234567''), (''created_at'', PStr ''2024-01-01'')]"

definition ada_pending :: session where
  "ada_pending = [''pending_user'' \<mapsto>
                    PDict [(''name'', PStr ''Ada''), (''phone'', PStr ''+15551234567'')]]"

definition ada_signin :: session where
  "ada_signin = [''signin_phone'' \<mapsto> PStr ''+15551234567'']"

definition ada_both :: session where
  "ada_both = [''pending_user'' \<mapsto>
                 PDict [(''name'', PStr ''Ada''), (''phone'', PStr ''+15551234567'')],
               ''signin_phone'' \<mapsto> PStr ''+15551234567'']"

definition inserted_error :: "string \<Rightarrow> string + insert_response" where
  "inserted_error txt = Inr \<lparr>error = ErrorAttr True txt\<rparr>"

definition ada_user :: pyval where
  "ada_user = PDict [(''id'', PStr ''u1''), (''name'', PStr ''Ada''),
                     (''phone'', PStr ''+15551234567'')]"

definition ada_all :: session where
  "ada_all = [''pending_user'' \<mapsto>
                PDict [(''name'', PStr ''Ada''), (''phone'', PStr ''+15551234567'')],
              ''signin_phone'' \<mapsto> PStr ''+15551234567'',
              ''user'' \<mapsto> ada_user]"

section \<open>What the example worlds answer\<close>

lemma verify_otp_answering [simp]:
  "fst (verify_otp cfg (answering p c i sel) phone code) = p"
  by (simp add: verify_otp_def answering_def)

lemma send_otp_answering [simp]:
  "fst (send_otp cfg (answering p c i sel) phone) = p"
  by (simp add: send_otp_def answering_def)

lemma answering_store [simp]:
  "create_user (answering p c i sel) payload = c"
  "table_insert (answering p c i sel) t row = i"
  "table_select_eq (answering p c i sel) t col v = sel"
  by (simp_all add: answering_def)

text \<open>The call that each helper records.\<close>

lemma verify_otp_call:
  "snd (verify_otp cfg e phone code) =
     RequestsPost (''https://verify.twilio.com/v2/Services/''
                     @ fmt (TWILIO_VERIFY_SERVICE_SID cfg) @ ''/VerificationCheck'')
       [(''To'', phone), (''Code'', code)] (TWILIO_ACCOUNT_SID cfg, TWILIO_AUTH_TOKEN cfg)"
  by (simp add: verify_otp_def Let_def)

lemma send_otp_call:
  "snd (send_otp cfg e phone) =
     RequestsPost (''https://verify.twilio.com/v2/Services/''
                     @ fmt (TWILIO_VERIFY_SERVICE_SID cfg) @ ''/Verifications'')
       [(''To'', phone), (''Channel'', PStr ''sms'')]
       (TWILIO_ACCOUNT_SID cfg, TWILIO_AUTH_TOKEN cfg)"
  by (simp add: send_otp_def Let_def)

section \<open>Facts about the handlers\<close>

text \<open>Only a dict answers \<^verbatim>\<open>.get\<close>.\<close>

lemma py_get_Inr:
  "py_get r k = Inr v \<Longrightarrow> \<exists>kvs. r = PDict kvs \<and> v = dict_get kvs k"
  by (cases r) auto

text \<open>A verification handler that returns a response has stored \<open>user\<close> and
  removed its own pending key, and has touched nothing else.\<close>

lemma post_signin_verify_success:
  "result (post_signin_verify cfg e otp s) = Inr resp \<Longrightarrow>
     \<exists>u. session (post_signin_verify cfg e otp s)
           = (s(''user'' \<mapsto> u))(''signin_phone'' := None)"
  by (auto simp add: post_signin_verify_def case_prod_beta Let_def
        split: sum.splits if_splits exc.splits)

lemma post_verify_success:
  "result (post_verify cfg e otp s) = Inr resp \<Longrightarrow>
     \<exists>u. session (post_verify cfg e otp s)
           = (s(''user'' \<mapsto> u))(''pending_user'' := None)"
  by (auto simp add: post_verify_def case_prod_beta Let_def
        split: sum.splits if_splits)

text \<open>
  No request writes \<open>user\<close> unless it is a verification request whose check came
  back with status \<open>approved\<close>.
\<close>

lemma user_written_only_after_approval:
  assumes "session (app cfg e req s) ''user'' \<noteq> s ''user''"
      and "session (app cfg e req s) ''user'' \<noteq> None"
  shows "\<exists>otp phone r. (req = Post_verify otp \<or> req = Post_signin_verify otp)
           \<and> fst (verify_otp cfg e phone (PStr otp)) = Inr (PDict r)
           \<and> dict_get r ''status'' = PStr ''approved''"
proof (cases req)
  case (Post_verify otp)
  with assms show ?thesis
    by (auto simp add: post_verify_def case_prod_beta Let_def
          split: sum.splits if_splits dest!: py_get_Inr) metis+
next
  case (Post_signin_verify otp)
  with assms show ?thesis
    by (auto simp add: post_signin_verify_def case_prod_beta Let_def
          split: sum.splits if_splits exc.splits dest!: py_get_Inr) metis+
qed (use assms in \<open>auto simp add: home_def get_signup_def post_signup_def get_verify_def
       signout_def get_signin_def post_signin_def get_signin_verify_def case_prod_beta Let_def
       split: sum.splits if_splits\<close>)

section \<open>The OTP gate\<close>

text \<open>
  C1. On POST /verify and on POST /signin/verify alike: when the verification check is
  made and its answer carries a status other than \<open>approved\<close> (a missing status is
  None), the handler raises HTTPException 400 "OTP verification failed. Please try again."
  and leaves the session as it found it, so no \<open>user\<close> is written.
\<close>

theorem otp_not_approved_blocks:
  "(s ''pending_user'' = Some pending \<and> py_truthy pending
      \<and> py_getitem pending ''phone'' = Inr phone
      \<and> py_getitem pending ''name'' = Inr name
      \<and> fst (verify_otp cfg e phone (PStr otp)) = Inr (PDict r)
      \<and> dict_get r ''status'' \<noteq> PStr ''approved''
    \<longrightarrow> result (post_verify cfg e otp s)
          = Inl (HTTPException 400 ''OTP verification failed. Please try again.'')
        \<and> session (post_verify cfg e otp s) = s)
   \<and> (s ''signin_phone'' = Some phone' \<and> py_truthy phone'
      \<and> fst (verify_otp cfg e phone' (PStr otp)) = Inr (PDict r')
      \<and> dict_get r' ''status'' \<noteq> PStr ''approved''
    \<longrightarrow> result (post_signin_verify cfg e otp s)
          = Inl (HTTPException 400 ''OTP verification failed. Please try again.'')
        \<and> session (post_signin_verify cfg e otp s) = s)"
  by (simp add: post_verify_def post_signin_verify_def session_get_def case_prod_beta)

theorem otp_not_approved_blocks_witness:
  "result (post_verify cfg0 (answering (status_json ''pending'') (user_created ''u1'')
             inserted_ok (rows_found [ada_row])) ''000000'' ada_both)
     = Inl (HTTPException 400 ''OTP verification failed. Please try again.'')
   \<and> session (post_verify cfg0 (answering (status_json ''pending'') (user_created ''u1'')
             inserted_ok (rows_found [ada_row])) ''000000'' ada_both) ''user'' = None
   \<and> result (post_signin_verify cfg0 (answering (status_json ''pending'')
             (user_created ''u1'') inserted_ok (rows_found [ada_row])) ''000000'' ada_both)
     = Inl (HTTPException 400 ''OTP verification failed. Please try again.'')
   \<and> session (post_signin_verify cfg0 (answering (status_json ''pending'')
             (user_created ''u1'') inserted_ok (rows_found [ada_row])) ''000000'' ada_both)
         ''user'' = None"
  using otp_not_approved_blocks [of ada_both
      "PDict [(''name'', PStr ''Ada''), (''phone'', PStr ''+15551234567'')]"
      "PStr ''+15551234567''" "PStr ''Ada''" cfg0
      "answering (status_json ''pending'') (user_created ''u1'') inserted_ok
         (rows_found [ada_row])"
      "''000000''" "[(''status'', PStr ''pending'')]" "PStr ''+15551234567''"
      "[(''status'', PStr ''pending'')]"]
  by (simp add: ada_both_def status_json_def dict_get_def)

section \<open>Signing up\<close>

text \<open>
  C2. With \<open>{name, phone}\<close> pending as POST /signup stores it, a POST /verify whose
  check is approved, whose create-user call returns a user and whose profile insert
  returns without a true \<open>error\<close> makes exactly three calls, in this order: the check,
  one create-user call for the phone, and one insert into \<open>profiles\<close> of the row
  \<open>{id, name, phone, created_at}\<close> with the created user's id and the pending phone. It
  stores \<open>user = {id, name, phone}\<close> in the session, removes \<open>pending_user\<close> and
  redirects to \<open>/\<close> with status 302.
\<close>

theorem signup_verify_approved:
  assumes "s ''pending_user'' = Some (PDict [(''name'', PStr name), (''phone'', PStr phone)])"
      and "fst (verify_otp cfg e (PStr phone) (PStr otp)) = Inr (PDict r)"
      and "dict_get r ''status'' = PStr ''approved''"
      and "create_user e (PDict [(''phone'', PStr phone), (''phone_confirm'', PBool True),
                                 (''user_metadata'', PDict [(''name'', PStr name)])])
             = Inr (Some auth_response)"
      and "user auth_response = Some (User user_id)"
      and "table_insert e ''profiles''
             (PDict [(''id'', user_id), (''name'', PStr name), (''phone'', PStr phone),
                     (''created_at'', PStr ''now()'')]) = Inr profile_response"
      and "\<forall>txt. error profile_response \<noteq> ErrorAttr True txt"
  shows "post_verify cfg e otp s =
           \<lparr>result = Inr (RedirectResponse ''/'' 302),
            session = (s(''user'' \<mapsto> PDict [(''id'', user_id), (''name'', PStr name),
                                              (''phone'', PStr phone)]))
                        (''pending_user'' := None),
            calls = [snd (verify_otp cfg e (PStr phone) (PStr otp)),
                     CreateUser (PDict [(''phone'', PStr phone),
                                        (''phone_confirm'', PBool True),
                                        (''user_metadata'', PDict [(''name'', PStr name)])]),
                     TableInsert ''profiles''
                       (PDict [(''id'', user_id), (''name'', PStr name),
                               (''phone'', PStr phone),
                               (''created_at'', PStr ''now()'')])]\<rparr>"
proof -
  have provisioned: "post_verify_try e (PStr phone) (PStr name) =
      (Inr user_id,
       [CreateUser (PDict [(''phone'', PStr phone), (''phone_confirm'', PBool True),
                           (''user_metadata'', PDict [(''name'', PStr name)])]),
        TableInsert ''profiles''
          (PDict [(''id'', user_id), (''name'', PStr name), (''phone'', PStr phone),
                  (''created_at'', PStr ''now()'')])])"
    using assms(4-7)
    by (auto simp add: post_verify_try_def Let_def split: error_attr.splits bool.splits)
  show ?thesis
    using assms(1-3)
    by (simp add: post_verify_def session_get_def case_prod_beta provisioned)
qed

theorem signup_verify_approved_witness:
  "post_verify cfg0
     (answering (status_json ''approved'') (user_created ''u1'') inserted_ok (rows_found []))
     ''123456'' ada_pending
   = \<lparr>result = Inr (RedirectResponse ''/'' 302),
      session = [''user'' \<mapsto> ada_user],
      calls = [RequestsPost ''https://verify.twilio.com/v2/Services/VA0/VerificationCheck''
                 [(''To'', PStr ''+15551234567''), (''Code'', PStr ''123456'')]
                 (Some ''AC0'', Some ''token''),
               CreateUser (PDict [(''phone'', PStr ''+15551234567''),
                                  (''phone_confirm'', PBool True),
                                  (''user_metadata'', PDict [(''name'', PStr ''Ada'')])]),
               TableInsert ''profiles''
                 (PDict [(''id'', PStr ''u1''), (''name'', PStr ''Ada''),
                         (''phone'', PStr ''+15551234567''),
                         (''created_at'', PStr ''now()'')])]\<rparr>"
  using signup_verify_approved [of ada_pending "''Ada''" "''+15551234567''" cfg0
      "answering (status_json ''approved'') (user_created ''u1'') inserted_ok (rows_found [])"
      "''123456''" "[(''status'', PStr ''approved'')]"
      "\<lparr>user = Some (User (PStr ''u1''))\<rparr>" "PStr ''u1''" "\<lparr>error = NoErrorAttr\<rparr>"]
  by (simp add: ada_pending_def status_json_def user_created_def inserted_ok_def
        dict_get_def ada_user_def verify_otp_call cfg0_def fmt_def fun_upd_twist)

text \<open>
  C5. In POST /verify, after an approved check, the handler raises HTTPException 500
  "Error creating user in Supabase: ..." and leaves the session as it found it (\<open>user\<close>
  is not written and \<open>pending_user\<close> stays) whenever provisioning fails:
  \<^item> the create-user call raises, returns None, or returns a response whose \<open>user\<close> is
    None;
  \<^item> or it returns a user and the profile insert raises, or returns a response whose
    \<open>error\<close> is true.
\<close>

theorem signup_provisioning_fails:
  assumes "s ''pending_user'' = Some pending" and "py_truthy pending"
      and "py_getitem pending ''phone'' = Inr phone"
      and "py_getitem pending ''name'' = Inr name"
      and "fst (verify_otp cfg e phone (PStr otp)) = Inr (PDict r)"
      and "dict_get r ''status'' = PStr ''approved''"
      and "create_user e (PDict [(''phone'', phone), (''phone_confirm'', PBool True),
                                 (''user_metadata'', PDict [(''name'', name)])]) = created"
      and "(\<exists>raised. created = Inl raised)
           \<or> created = Inr None
           \<or> created = Inr (Some \<lparr>user = None\<rparr>)
           \<or> (\<exists>user_id inserted.
                 created = Inr (Some \<lparr>user = Some (User user_id)\<rparr>)
                 \<and> table_insert e ''profiles''
                      (PDict [(''id'', user_id), (''name'', name), (''phone'', phone),
                              (''created_at'', PStr ''now()'')]) = inserted
                 \<and> ((\<exists>raised. inserted = Inl raised)
                      \<or> (\<exists>txt. inserted = Inr \<lparr>error = ErrorAttr True txt\<rparr>)))"
  shows "(\<exists>msg. result (post_verify cfg e otp s)
                  = Inl (HTTPException 500 (''Error creating user in Supabase: '' @ msg)))
       \<and> session (post_verify cfg e otp s) = s"
proof -
  have "\<exists>msg cs. post_verify_try e phone name = (Inl msg, cs)"
    using assms(7,8)
    by (auto simp add: post_verify_try_def Let_def)
  then obtain msg cs where "post_verify_try e phone name = (Inl msg, cs)"
    by blast
  then show ?thesis
    using assms(1-6)
    by (simp add: post_verify_def session_get_def case_prod_beta)
qed

theorem signup_provisioning_fails_witness:
  "result (post_verify cfg0
       (answering (status_json ''approved'') (user_created ''u1'')
          (inserted_error ''duplicate key'') (rows_found []))
       ''123456'' ada_pending)
      = Inl (HTTPException 500
          ''Error creating user in Supabase: Failed to create user profile: duplicate key'')
   \<and> session (post_verify cfg0
       (answering (status_json ''approved'') (user_created ''u1'')
          (inserted_error ''duplicate key'') (rows_found []))
       ''123456'' ada_pending) = ada_pending
   \<and> result (post_verify cfg0
       (answering (status_json ''approved'') (user_created ''u1'')
          (Inl ''connection reset'') (rows_found []))
       ''123456'' ada_pending)
      = Inl (HTTPException 500 ''Error creating user in Supabase: connection reset'')
   \<and> session (post_verify cfg0
       (answering (status_json ''approved'') (user_created ''u1'')
          (Inl ''connection reset'') (rows_found []))
       ''123456'' ada_pending) = ada_pending
   \<and> result (post_verify cfg0
       (answering (status_json ''approved'') (Inl ''phone already registered'')
          inserted_ok (rows_found []))
       ''123456'' ada_pending)
      = Inl (HTTPException 500 ''Error creating user in Supabase: phone already registered'')
   \<and> session (post_verify cfg0
       (answering (status_json ''approved'') (Inl ''phone already registered'')
          inserted_ok (rows_found []))
       ''123456'' ada_pending) = ada_pending
   \<and> ada_pending ''user'' = None
   \<and> ada_pending ''pending_user''
       = Some (PDict [(''name'', PStr ''Ada''), (''phone'', PStr ''+15551234567'')])"
proof -
  let ?pending = "PDict [(''name'', PStr ''Ada''), (''phone'', PStr ''+15551234567'')]"
  let ?reported = "answering (status_json ''approved'') (user_created ''u1'')
                     (inserted_error ''duplicate key'') (rows_found [])"
  let ?insert_raises = "answering (status_json ''approved'') (user_created ''u1'')
                          (Inl ''connection reset'') (rows_found [])"
  let ?create_raises = "answering (status_json ''approved'') (Inl ''phone already registered'')
                          inserted_ok (rows_found [])"
  have a: "session (post_verify cfg0 ?reported ''123456'' ada_pending) = ada_pending"
    using signup_provisioning_fails [of ada_pending ?pending "PStr ''+15551234567''"
        "PStr ''Ada''" cfg0 ?reported "''123456''" "[(''status'', PStr ''approved'')]"
        "user_created ''u1''"]
    by (simp add: ada_pending_def status_json_def user_created_def inserted_error_def
          dict_get_def)
  have b: "session (post_verify cfg0 ?insert_raises ''123456'' ada_pending) = ada_pending"
    using signup_provisioning_fails [of ada_pending ?pending "PStr ''+15551234567''"
        "PStr ''Ada''" cfg0 ?insert_raises "''123456''" "[(''status'', PStr ''approved'')]"
        "user_created ''u1''"]
    by (simp add: ada_pending_def status_json_def user_created_def dict_get_def)
  have c: "session (post_verify cfg0 ?create_raises ''123456'' ada_pending) = ada_pending"
    using signup_provisioning_fails [of ada_pending ?pending "PStr ''+15551234567''"
        "PStr ''Ada''" cfg0 ?create_raises "''123456''" "[(''status'', PStr ''approved'')]"
        "Inl ''phone already registered''"]
    by (simp add: ada_pending_def status_json_def dict_get_def)
  have results:
    "result (post_verify cfg0 ?reported ''123456'' ada_pending)
      = Inl (HTTPException 500
          ''Error creating user in Supabase: Failed to create user profile: duplicate key'')"
    "result (post_verify cfg0 ?insert_raises ''123456'' ada_pending)
      = Inl (HTTPException 500 ''Error creating user in Supabase: connection reset'')"
    "result (post_verify cfg0 ?create_raises ''123456'' ada_pending)
      = Inl (HTTPException 500 ''Error creating user in Supabase: phone already registered'')"
    by (simp_all add: post_verify_def post_verify_try_def session_get_def case_prod_beta
          Let_def ada_pending_def status_json_def user_created_def inserted_error_def
          dict_get_def)
  from a b c results show ?thesis
    by (simp add: ada_pending_def)
qed

section \<open>Signing in\<close>

text \<open>
  C3. With a phone pending for sign-in, a POST /signin/verify whose check is approved
  and whose select on \<open>profiles\<close> by that phone returns at least one row takes the
  first row returned: it stores \<open>user = {id, name, phone}\<close> with the values the row
  has under these keys, removes \<open>signin_phone\<close> and redirects to \<open>/\<close> with status 302.
  With exactly one row (\<open>others = []\<close>) that row is the stored profile.
\<close>

theorem signin_verify_approved:
  assumes "s ''signin_phone'' = Some phone" and "py_truthy phone"
      and "fst (verify_otp cfg e phone (PStr otp)) = Inr (PDict r)"
      and "dict_get r ''status'' = PStr ''approved''"
      and "table_select_eq e ''profiles'' ''phone'' phone = Inr profile_response"
      and "data profile_response = DataAttr (Some (PDict row # others))"
  shows "result (post_signin_verify cfg e otp s) = Inr (RedirectResponse ''/'' 302)
       \<and> session (post_signin_verify cfg e otp s)
           = (s(''user'' \<mapsto> PDict [(''id'', dict_get row ''id''),
                                      (''name'', dict_get row ''name''),
                                      (''phone'', dict_get row ''phone'')]))
               (''signin_phone'' := None)"
  using assms
  by (simp add: post_signin_verify_def post_signin_verify_try_def session_get_def
        case_prod_beta Let_def)

theorem signin_verify_approved_witness:
  "result (post_signin_verify cfg0
             (answering (status_json ''approved'') (user_created ''u2'') inserted_ok
                (rows_found [ada_row, PDict [(''id'', PStr ''u9'')]]))
             ''123456'' ada_signin) = Inr (RedirectResponse ''/'' 302)
   \<and> session (post_signin_verify cfg0
             (answering (status_json ''approved'') (user_created ''u2'') inserted_ok
                (rows_found [ada_row, PDict [(''id'', PStr ''u9'')]]))
             ''123456'' ada_signin) = [''user'' \<mapsto> ada_user]"
  using signin_verify_approved [of ada_signin "PStr ''+15551234567''" cfg0
      "answering (status_json ''approved'') (user_created ''u2'') inserted_ok
         (rows_found [ada_row, PDict [(''id'', PStr ''u9'')]])"
      "''123456''" "[(''status'', PStr ''approved'')]"
      "\<lparr>data = DataAttr (Some [ada_row, PDict [(''id'', PStr ''u9'')]])\<rparr>"
      "[(''id'', PStr ''u1''), (''name'', PStr ''Ada''),
        (''phone'', PStr ''+15551234567''), (''created_at'', PStr ''2024-01-01'')]"
      "[PDict [(''id'', PStr ''u9'')]]"]
  by (simp add: ada_signin_def status_json_def rows_found_def ada_row_def ada_user_def
        dict_get_def fun_upd_twist)

text \<open>
  C4. With a phone pending for sign-in, a POST /signin/verify whose check is approved
  and whose select on \<open>profiles\<close> returns no row raises HTTPException 404 "No user
  found with this phone number" and leaves the session as it found it.
\<close>

theorem signin_verify_not_found:
  assumes "s ''signin_phone'' = Some phone" and "py_truthy phone"
      and "fst (verify_otp cfg e phone (PStr otp)) = Inr (PDict r)"
      and "dict_get r ''status'' = PStr ''approved''"
      and "table_select_eq e ''profiles'' ''phone'' phone = Inr profile_response"
      and "data profile_response = DataAttr (Some [])"
  shows "result (post_signin_verify cfg e otp s)
           = Inl (HTTPException 404 ''No user found with this phone number'')
       \<and> session (post_signin_verify cfg e otp s) = s"
  using assms
  by (simp add: post_signin_verify_def post_signin_verify_try_def session_get_def
        case_prod_beta Let_def)

theorem signin_verify_not_found_witness:
  "result (post_signin_verify cfg0
             (answering (status_json ''approved'') (user_created ''u2'') inserted_ok
                (rows_found [])) ''123456'' ada_signin)
     = Inl (HTTPException 404 ''No user found with this phone number'')
   \<and> session (post_signin_verify cfg0
             (answering (status_json ''approved'') (user_created ''u2'') inserted_ok
                (rows_found [])) ''123456'' ada_signin) ''user'' = None"
  using signin_verify_not_found [of ada_signin "PStr ''+15551234567''" cfg0
      "answering (status_json ''approved'') (user_created ''u2'') inserted_ok (rows_found [])"
      "''123456''" "[(''status'', PStr ''approved'')]" "\<lparr>data = DataAttr (Some [])\<rparr>"]
  by (simp add: ada_signin_def status_json_def rows_found_def dict_get_def)

section \<open>Submitting the forms\<close>

text \<open>
  C6, as stated, fails: with a gateway that answers the send with status \<open>failed\<close>,
  POST /signup raises HTTPException 500 and POST /signin raises HTTPException 500, and
  yet the session holds \<open>pending_user\<close>, respectively \<open>signin_phone\<close>: both handlers
  store the pending state before they send.
\<close>

theorem send_refused_pending_kept_counterexample:
  "fst (send_otp cfg0 (answering (status_json ''failed'') (user_created ''u1'') inserted_ok
          (rows_found [])) (PStr ''+15551234567''))
     = Inr (PDict [(''status'', PStr ''failed'')])
   \<and> result (post_signup cfg0 (answering (status_json ''failed'') (user_created ''u1'')
         inserted_ok (rows_found [])) ''Ada'' ''+15551234567'' Map.empty)
     = Inl (HTTPException 500 ''Failed to send OTP'')
   \<and> session (post_signup cfg0 (answering (status_json ''failed'') (user_created ''u1'')
         inserted_ok (rows_found [])) ''Ada'' ''+15551234567'' Map.empty) ''pending_user''
     = Some (PDict [(''name'', PStr ''Ada''), (''phone'', PStr ''+15551234567'')])
   \<and> result (post_signin cfg0 (answering (status_json ''failed'') (user_created ''u1'')
         inserted_ok (rows_found [])) ''+15551234567'' Map.empty)
     = Inl (HTTPException 500 ''Error during sign-in'')
   \<and> session (post_signin cfg0 (answering (status_json ''failed'') (user_created ''u1'')
         inserted_ok (rows_found [])) ''+15551234567'' Map.empty) ''signin_phone''
     = Some (PStr ''+15551234567'')"
  by (simp add: post_signup_def post_signin_def case_prod_beta status_json_def dict_get_def)

text \<open>
  C6, amended. POST /signup stores \<open>pending_user = {name, phone}\<close> and POST /signin
  stores \<open>signin_phone = phone\<close> in the session before the challenge is sent, whatever
  the gateway answers. When the send returns a dict, the handler redirects to its
  verification page (\<open>/verify\<close>, \<open>/signin/verify\<close>, status 302) if the status is
  \<open>pending\<close> or \<open>approved\<close>, and otherwise raises HTTPException 500 ("Failed to send
  OTP", respectively "Error during sign-in"). A response is returned only when the send
  returned a dict with one of these two statuses.
\<close>

theorem form_submission_pending_then_send:
  "session (post_signup cfg e name phone s)
     = s(''pending_user'' \<mapsto> PDict [(''name'', PStr name), (''phone'', PStr phone)])
   \<and> session (post_signin cfg e phone s) = s(''signin_phone'' \<mapsto> PStr phone)
   \<and> (fst (send_otp cfg e (PStr phone)) = Inr (PDict r) \<longrightarrow>
        (if dict_get r ''status'' \<in> {PStr ''pending'', PStr ''approved''}
         then result (post_signup cfg e name phone s) = Inr (RedirectResponse ''/verify'' 302)
            \<and> result (post_signin cfg e phone s)
                = Inr (RedirectResponse ''/signin/verify'' 302)
         else result (post_signup cfg e name phone s)
                = Inl (HTTPException 500 ''Failed to send OTP'')
            \<and> result (post_signin cfg e phone s)
                = Inl (HTTPException 500 ''Error during sign-in'')))
   \<and> ((\<exists>resp. result (post_signup cfg e name phone s) = Inr resp
          \<or> result (post_signin cfg e phone s) = Inr resp) \<longrightarrow>
        (\<exists>r'. fst (send_otp cfg e (PStr phone)) = Inr (PDict r')
             \<and> dict_get r' ''status'' \<in> {PStr ''pending'', PStr ''approved''}))"
proof -
  have sess: "session (post_signup cfg e name phone s)
     = s(''pending_user'' \<mapsto> PDict [(''name'', PStr name), (''phone'', PStr phone)])"
    "session (post_signin cfg e phone s) = s(''signin_phone'' \<mapsto> PStr phone)"
    by (simp_all add: post_signup_def post_signin_def case_prod_beta Let_def
          split: sum.splits)
  have fwd: "fst (send_otp cfg e (PStr phone)) = Inr (PDict r) \<longrightarrow>
        (if dict_get r ''status'' \<in> {PStr ''pending'', PStr ''approved''}
         then result (post_signup cfg e name phone s) = Inr (RedirectResponse ''/verify'' 302)
            \<and> result (post_signin cfg e phone s)
                = Inr (RedirectResponse ''/signin/verify'' 302)
         else result (post_signup cfg e name phone s)
                = Inl (HTTPException 500 ''Failed to send OTP'')
            \<and> result (post_signin cfg e phone s)
                = Inl (HTTPException 500 ''Error during sign-in''))"
    by (simp add: post_signup_def post_signin_def case_prod_beta Let_def)
  have only_if: "(\<exists>resp. result (post_signup cfg e name phone s) = Inr resp
          \<or> result (post_signin cfg e phone s) = Inr resp) \<longrightarrow>
        (\<exists>r'. fst (send_otp cfg e (PStr phone)) = Inr (PDict r')
             \<and> dict_get r' ''status'' \<in> {PStr ''pending'', PStr ''approved''})"
    by (auto simp add: post_signup_def post_signin_def case_prod_beta Let_def
          split: sum.splits if_splits dest!: py_get_Inr)
  from sess fwd only_if show ?thesis by blast
qed

theorem form_submission_pending_then_send_witness:
  "session (post_signup cfg0 (answering (status_json ''pending'') (user_created ''u1'')
       inserted_ok (rows_found [])) ''Ada'' ''+15551234567'' Map.empty) = ada_pending
   \<and> session (post_signin cfg0 (answering (status_json ''pending'') (user_created ''u1'')
       inserted_ok (rows_found [])) ''+15551234567'' Map.empty) = ada_signin
   \<and> result (post_signup cfg0 (answering (status_json ''pending'') (user_created ''u1'')
       inserted_ok (rows_found [])) ''Ada'' ''+15551234567'' Map.empty)
      = Inr (RedirectResponse ''/verify'' 302)
   \<and> result (post_signin cfg0 (answering (status_json ''pending'') (user_created ''u1'')
       inserted_ok (rows_found [])) ''+15551234567'' Map.empty)
      = Inr (RedirectResponse ''/signin/verify'' 302)"
  using form_submission_pending_then_send [of cfg0
      "answering (status_json ''pending'') (user_created ''u1'') inserted_ok (rows_found [])"
      "''Ada''" "''+15551234567''" Map.empty "[(''status'', PStr ''pending'')]"]
  by (simp add: status_json_def dict_get_def ada_pending_def ada_signin_def)

section \<open>Verification pages without pending state\<close>

text \<open>
  C7, as stated, fails for the two POST handlers: on an empty session POST /verify and
  POST /signin/verify raise HTTPException 400 and redirect nowhere.
\<close>

theorem post_without_pending_counterexample:
  "result (post_verify cfg0 (answering (status_json ''approved'') (user_created ''u1'')
       inserted_ok (rows_found [ada_row])) ''123456'' Map.empty)
     = Inl (HTTPException 400 ''No pending user found. Please sign up first.'')
   \<and> result (post_signin_verify cfg0 (answering (status_json ''approved'')
       (user_created ''u1'') inserted_ok (rows_found [ada_row])) ''123456'' Map.empty)
     = Inl (HTTPException 400 ''No phone number found. Please sign in first.'')"
  by (simp add: post_verify_def post_signin_verify_def session_get_def)

text \<open>
  C7, amended. With no truthy \<open>pending_user\<close> in the session, GET /verify redirects to
  \<open>/signup\<close> (status 307) and POST /verify raises HTTPException 400 "No pending user
  found. Please sign up first."; with no truthy \<open>signin_phone\<close>, GET /signin/verify
  redirects to \<open>/signin\<close> (status 307) and POST /signin/verify raises HTTPException 400
  "No phone number found. Please sign in first.". None of the four changes the session or
  makes a call.
\<close>

theorem no_pending_state:
  "(\<not> py_truthy (session_get s ''pending_user'') \<longrightarrow>
      get_verify s = \<lparr>result = Inr (RedirectResponse ''/signup'' 307),
                      session = s, calls = []\<rparr>
      \<and> post_verify cfg e otp s
          = \<lparr>result = Inl (HTTPException 400
                              ''No pending user found. Please sign up first.''),
             session = s, calls = []\<rparr>)
   \<and> (\<not> py_truthy (session_get s ''signin_phone'') \<longrightarrow>
      get_signin_verify s = \<lparr>result = Inr (RedirectResponse ''/signin'' 307),
                             session = s, calls = []\<rparr>
      \<and> post_signin_verify cfg e otp s
          = \<lparr>result = Inl (HTTPException 400
                              ''No phone number found. Please sign in first.''),
             session = s, calls = []\<rparr>)"
  by (simp add: get_verify_def post_verify_def get_signin_verify_def post_signin_verify_def)

theorem no_pending_state_witness:
  "get_verify Map.empty = \<lparr>result = Inr (RedirectResponse ''/signup'' 307),
                            session = Map.empty, calls = []\<rparr>
   \<and> get_signin_verify Map.empty = \<lparr>result = Inr (RedirectResponse ''/signin'' 307),
                            session = Map.empty, calls = []\<rparr>
   \<and> post_verify cfg0 (answering (status_json ''approved'') (user_created ''u1'')
        inserted_ok (rows_found [ada_row])) ''123456'' Map.empty
       = \<lparr>result = Inl (HTTPException 400 ''No pending user found. Please sign up first.''),
          session = Map.empty, calls = []\<rparr>
   \<and> post_signin_verify cfg0 (answering (status_json ''approved'') (user_created ''u1'')
        inserted_ok (rows_found [ada_row])) ''123456'' Map.empty
       = \<lparr>result = Inl (HTTPException 400 ''No phone number found. Please sign in first.''),
          session = Map.empty, calls = []\<rparr>"
  using no_pending_state [of Map.empty cfg0
      "answering (status_json ''approved'') (user_created ''u1'') inserted_ok
         (rows_found [ada_row])" "''123456''"]
  by (simp add: session_get_def)

section \<open>Signing out\<close>

text \<open>
  C8. GET /signout removes the entry \<open>user\<close> from the session and redirects to \<open>/\<close>
  with status 302; GET \<open>/\<close> on the session it leaves renders \<open>home.html\<close> with
  \<open>user\<close> = None.
\<close>

theorem signout_then_home_no_user:
  "session (signout s) ''user'' = None
   \<and> result (signout s) = Inr (RedirectResponse ''/'' 302)
   \<and> result (home (session (signout s)))
       = Inr (TemplateResponse ''home.html'' [(''user'', PNone)])"
  by (simp add: signout_def home_def session_get_def)

text \<open>
  C10. GET /signout changes the session at the key \<open>user\<close> only: \<open>pending_user\<close>,
  \<open>signin_phone\<close> and every other key hold afterwards what they held before.
\<close>

theorem signout_frame:
  "session (signout s) ''pending_user'' = s ''pending_user''
   \<and> session (signout s) ''signin_phone'' = s ''signin_phone''
   \<and> (\<forall>k. k \<noteq> ''user'' \<longrightarrow> session (signout s) k = s k)"
  by (simp add: signout_def)

theorem signout_frame_witness:
  "session (signout ada_all) ''pending_user''
     = Some (PDict [(''name'', PStr ''Ada''), (''phone'', PStr ''+15551234567'')])
   \<and> session (signout ada_all) ''signin_phone'' = Some (PStr ''+15551234567'')
   \<and> session (signout ada_all) ''user'' = None
   \<and> ada_all ''user'' = Some ada_user"
  using signout_frame [of ada_all]
  by (simp add: ada_all_def signout_def)

section \<open>Stale pending state\<close>

text \<open>
  C9. The pending and authenticated states are not mutually exclusive. A POST
  /signin/verify that returns a response has stored \<open>user\<close> and removed \<open>signin_phone\<close>
  and leaves \<open>pending_user\<close> as it was; a POST /verify that returns a response has stored
  \<open>user\<close> and removed \<open>pending_user\<close> and leaves \<open>signin_phone\<close> as it was. There is a
  sequence of requests from the empty session after which \<open>user\<close> and \<open>pending_user\<close>
  are both present, and one after which \<open>user\<close> and \<open>signin_phone\<close> are both present.
\<close>

theorem stale_pending_state_coexists:
  "(result (post_signin_verify cfg e otp s) = Inr resp \<longrightarrow>
      session (post_signin_verify cfg e otp s) ''user'' \<noteq> None
      \<and> session (post_signin_verify cfg e otp s) ''signin_phone'' = None
      \<and> session (post_signin_verify cfg e otp s) ''pending_user'' = s ''pending_user'')
   \<and> (result (post_verify cfg e otp s) = Inr resp' \<longrightarrow>
      session (post_verify cfg e otp s) ''user'' \<noteq> None
      \<and> session (post_verify cfg e otp s) ''pending_user'' = None
      \<and> session (post_verify cfg e otp s) ''signin_phone'' = s ''signin_phone'')
   \<and> (\<exists>reqs. run cfg0 reqs Map.empty ''user'' \<noteq> None
             \<and> run cfg0 reqs Map.empty ''pending_user'' \<noteq> None)
   \<and> (\<exists>reqs. run cfg0 reqs Map.empty ''user'' \<noteq> None
             \<and> run cfg0 reqs Map.empty ''signin_phone'' \<noteq> None)"
proof -
  have signin: "result (post_signin_verify cfg e otp s) = Inr resp \<longrightarrow>
      session (post_signin_verify cfg e otp s) ''user'' \<noteq> None
      \<and> session (post_signin_verify cfg e otp s) ''signin_phone'' = None
      \<and> session (post_signin_verify cfg e otp s) ''pending_user'' = s ''pending_user''"
    using post_signin_verify_success [of cfg e otp s resp] by auto
  have signup: "result (post_verify cfg e otp s) = Inr resp' \<longrightarrow>
      session (post_verify cfg e otp s) ''user'' \<noteq> None
      \<and> session (post_verify cfg e otp s) ''pending_user'' = None
      \<and> session (post_verify cfg e otp s) ''signin_phone'' = s ''signin_phone''"
    using post_verify_success [of cfg e otp s resp'] by auto
  let ?sent = "answering (status_json ''pending'') (user_created ''u1'') inserted_ok
                 (rows_found [ada_row])"
  let ?ok = "answering (status_json ''approved'') (user_created ''u1'') inserted_ok
               (rows_found [ada_row])"
  have after_forms: "run cfg0 [(?sent, Post_signup ''Ada'' ''+15551234567''),
                        (?sent, Post_signin ''+15551234567'')] Map.empty = ada_both"
    by (simp add: post_signup_def post_signin_def persisted_def case_prod_beta Let_def
          status_json_def dict_get_def ada_both_def fun_upd_twist)
  have seq1: "run cfg0 [(?sent, Post_signup ''Ada'' ''+15551234567''),
                        (?sent, Post_signin ''+15551234567''),
                        (?ok, Post_signin_verify ''123456'')] Map.empty
                = [''pending_user'' \<mapsto>
                     PDict [(''name'', PStr ''Ada''), (''phone'', PStr ''+15551234567'')],
                   ''user'' \<mapsto> ada_user]"
    by (simp add: post_signup_def post_signin_def post_signin_verify_def
          post_signin_verify_try_def persisted_def case_prod_beta session_get_def Let_def
          status_json_def rows_found_def ada_row_def ada_user_def dict_get_def
          fun_upd_twist)
  have seq2: "run cfg0 [(?sent, Post_signin ''+15551234567''),
                        (?sent, Post_signup ''Ada'' ''+15551234567''),
                        (?ok, Post_verify ''123456'')] Map.empty
                = [''signin_phone'' \<mapsto> PStr ''+15551234567'', ''user'' \<mapsto> ada_user]"
    by (simp add: post_signup_def post_signin_def post_verify_def
          post_verify_try_def persisted_def case_prod_beta session_get_def Let_def
          status_json_def user_created_def inserted_ok_def ada_user_def dict_get_def
          fun_upd_twist)
  have ex1: "\<exists>reqs. run cfg0 reqs Map.empty ''user'' \<noteq> None
             \<and> run cfg0 reqs Map.empty ''pending_user'' \<noteq> None"
    by (rule exI [of _ "[(?sent, Post_signup ''Ada'' ''+15551234567''),
                        (?sent, Post_signin ''+15551234567''),
                        (?ok, Post_signin_verify ''123456'')]"]) (simp only: seq1, simp)
  have ex2: "\<exists>reqs. run cfg0 reqs Map.empty ''user'' \<noteq> None
             \<and> run cfg0 reqs Map.empty ''signin_phone'' \<noteq> None"
    by (rule exI [of _ "[(?sent, Post_signin ''+15551234567''),
                        (?sent, Post_signup ''Ada'' ''+15551234567''),
                        (?ok, Post_verify ''123456'')]"]) (simp only: seq2, simp)
  from signin signup ex1 ex2 show ?thesis by blast
qed

theorem stale_pending_state_coexists_witness:
  "result (post_signin_verify cfg0 (answering (status_json ''approved'') (user_created ''u1'')
       inserted_ok (rows_found [ada_row])) ''123456'' ada_both)
     = Inr (RedirectResponse ''/'' 302)
   \<and> session (post_signin_verify cfg0 (answering (status_json ''approved'')
       (user_created ''u1'') inserted_ok (rows_found [ada_row])) ''123456'' ada_both)
       ''user'' \<noteq> None
   \<and> session (post_signin_verify cfg0 (answering (status_json ''approved'')
       (user_created ''u1'') inserted_ok (rows_found [ada_row])) ''123456'' ada_both)
       ''pending_user''
     = Some (PDict [(''name'', PStr ''Ada''), (''phone'', PStr ''+15551234567'')])
   \<and> result (post_verify cfg0 (answering (status_json ''approved'') (user_created ''u1'')
       inserted_ok (rows_found [ada_row])) ''123456'' ada_both)
     = Inr (RedirectResponse ''/'' 302)
   \<and> session (post_verify cfg0 (answering (status_json ''approved'') (user_created ''u1'')
       inserted_ok (rows_found [ada_row])) ''123456'' ada_both) ''user'' \<noteq> None
   \<and> session (post_verify cfg0 (answering (status_json ''approved'') (user_created ''u1'')
       inserted_ok (rows_found [ada_row])) ''123456'' ada_both) ''signin_phone''
     = Some (PStr ''+15551234567'')"
proof -
  let ?ok = "answering (status_json ''approved'') (user_created ''u1'') inserted_ok
               (rows_found [ada_row])"
  have r1: "result (post_signin_verify cfg0 ?ok ''123456'' ada_both)
              = Inr (RedirectResponse ''/'' 302)"
    by (simp add: post_signin_verify_def post_signin_verify_try_def case_prod_beta Let_def
          session_get_def ada_both_def status_json_def rows_found_def ada_row_def
          dict_get_def)
  have r2: "result (post_verify cfg0 ?ok ''123456'' ada_both)
              = Inr (RedirectResponse ''/'' 302)"
    by (simp add: post_verify_def post_verify_try_def case_prod_beta Let_def
          session_get_def ada_both_def status_json_def user_created_def inserted_ok_def
          dict_get_def)
  show ?thesis
    using r1 r2 stale_pending_state_coexists [of cfg0 ?ok "''123456''" ada_both
        "RedirectResponse ''/'' 302" "RedirectResponse ''/'' 302"]
    by (simp add: ada_both_def)
qed

end
